theory Spec2Isabelle
  imports Main "HOL-Library.AList"
begin

section \<open>Strings as the source uses them\<close>

text \<open>
  The reporting code of \<^verbatim>\<open>infra/report.py\<close> works on Python strings. They are modelled
  as HOL strings; a \<^typ>\<open>char\<close> stands for a code point below 256.
\<close>

definition LF :: char where
  "LF = CHR 0x0A"

definition CR :: char where
  "CR = CHR 0x0D"

definition DQ :: char where
  "DQ = CHR 0x22"

text \<open>\<^verbatim>\<open>prefix = '[setup-report]'\<close> (module level).\<close>

definition prefix :: string where
  "prefix = ''[setup-report]''"

text \<open>\<^verbatim>\<open>str.isspace\<close> on one character, for the code points below 256.\<close>

definition isspace :: "char \<Rightarrow> bool" where
  "isspace c = (c \<in> set [CHR 0x09, CHR 0x0A, CHR 0x0B, CHR 0x0C, CHR 0x0D,
                          CHR 0x1C, CHR 0x1D, CHR 0x1E, CHR 0x1F, CHR 0x20,
                          CHR 0x85, CHR 0xA0])"

text \<open>\<^verbatim>\<open>s.rstrip()\<close>: trailing whitespace removed.\<close>

definition rstrip :: "string \<Rightarrow> string" where
  "rstrip s = rev (dropWhile isspace (rev s))"

text \<open>\<^verbatim>\<open>s.startswith(p)\<close>.\<close>

definition startswith :: "string \<Rightarrow> string \<Rightarrow> bool" where
  "startswith s p = (take (length p) s = p)"

text \<open>\<^verbatim>\<open>s.find(sep)\<close>: the least index at which \<open>sep\<close> occurs in \<open>s\<close>, if any.\<close>

fun find_str :: "string \<Rightarrow> string \<Rightarrow> nat option" where
  "find_str sep [] = (if sep = [] then Some 0 else None)"
| "find_str sep (c # cs) =
     (if startswith (c # cs) sep then Some 0
      else (case find_str sep cs of None \<Rightarrow> None | Some i \<Rightarrow> Some (Suc i)))"

text \<open>\<^verbatim>\<open>s.split(sep, 1)\<close> for a non-empty separator: one or two pieces.\<close>

definition split_1 :: "string \<Rightarrow> string \<Rightarrow> string list" where
  "split_1 sep s =
     (case find_str sep s of
        None \<Rightarrow> [s]
      | Some i \<Rightarrow> [take i s, drop (i + length sep) s])"

text \<open>\<^verbatim>\<open>' '.join(args)\<close> and \<^verbatim>\<open>print(*args)\<close>: the arguments separated by one space,
  then a line feed.\<close>

fun join_space :: "string list \<Rightarrow> string" where
  "join_space [] = []"
| "join_space [a] = a"
| "join_space (a # b # bs) = a @ '' '' @ join_space (b # bs)"

definition print_text :: "string list \<Rightarrow> string" where
  "print_text args = join_space args @ [LF]"

text \<open>
  Reading a text file opened with the default \<^verbatim>\<open>newline=None\<close>: a carriage return,
  alone or followed by a line feed, is read as a line feed.
\<close>

fun universal_newlines :: "string \<Rightarrow> string" where
  "universal_newlines [] = []"
| "universal_newlines [c] = (if c = CR then [LF] else [c])"
| "universal_newlines (c # d # cs) =
     (if c = CR \<and> d = LF then LF # universal_newlines cs
      else if c = CR then LF # universal_newlines (d # cs)
      else c # universal_newlines (d # cs))"

text \<open>\<^verbatim>\<open>for line in f\<close>: each line keeps its line feed; a last line without one is
  yielded when it is not empty.\<close>

fun iter_lines :: "string \<Rightarrow> string \<Rightarrow> string list" where
  "iter_lines cur [] = (if cur = [] then [] else [cur])"
| "iter_lines cur (c # cs) =
     (if c = LF then (cur @ [c]) # iter_lines [] cs else iter_lines (cur @ [c]) cs)"

definition file_lines :: "string \<Rightarrow> string list" where
  "file_lines content = iter_lines [] (universal_newlines content)"

section \<open>Errors and the log\<close>

datatype error =
    ValueError
  | AttributeError
  | FatalError string
  | NotImplementedError
  | FileNotFoundError
  | NotADirectoryError
  | IsADirectoryError
  | FileExistsError

datatype log_entry = Debug string | Warning string

section \<open>The metadata codec\<close>

type_synonym meta = "(string \<times> string) list"

text \<open>
  \<^verbatim>\<open>BenchmarkRunner.report\<close>, as the text it prints. A Python dict iterates in
  insertion order, so \<open>data\<close> is an association list; the values are the strings
  \<^verbatim>\<open>str(value)\<close>. The two lines for the target and the instance and the lines of
  \<open>data\<close> are \<open>report_entries\<close>; \<open>report\<close> puts the begin and end lines around them.
\<close>

definition report_entries :: "string \<Rightarrow> string \<Rightarrow> meta \<Rightarrow> string" where
  "report_entries target_name instance_name data =
     print_text [prefix, ''target:'', target_name] @
     print_text [prefix, ''instance:'', instance_name] @
     concat (map (\<lambda>(key, value). print_text [prefix, key @ '':'', value]) data)"

definition report :: "string \<Rightarrow> string \<Rightarrow> meta \<Rightarrow> string" where
  "report target_name instance_name data =
     print_text [prefix, ''begin''] @
     report_entries target_name instance_name data @
     print_text [prefix, ''end'']"

text \<open>
  The body of the loop of \<^verbatim>\<open>BenchmarkReporter._parse_metadata\<close> on one line.
  \<open>split_line\<close> is \<open>None\<close> for a line that does not start with the prefix; for one
  that does, unpacking \<^verbatim>\<open>name, value = ....split(': ', 1)\<close> raises \<^verbatim>\<open>ValueError\<close> when
  the split gives one piece. The state of the loop is the log and the dict \<open>meta\<close>.
\<close>

definition duplicate_warning :: "string \<Rightarrow> string \<Rightarrow> log_entry" where
  "duplicate_warning name path =
     Warning (''duplicate metadata entry for '' @ [DQ] @ name @ [DQ] @ '' in '' @ path @
              '', using the last one'')"

definition split_line :: "string \<Rightarrow> (error + string \<times> string) option" where
  "split_line line0 =
     (let line = rstrip line0 in
      if startswith line prefix then
        (case split_1 '': '' (drop (length prefix + 1) line) of
           [name, value] \<Rightarrow> Some (Inr (name, value))
         | _ \<Rightarrow> Some (Inl ValueError))
      else None)"

definition parse_line ::
  "string \<Rightarrow> string \<Rightarrow> log_entry list \<times> meta \<Rightarrow> error + (log_entry list \<times> meta)" where
  "parse_line path line0 st =
     (case split_line line0 of
        None \<Rightarrow> Inr st
      | Some (Inl e) \<Rightarrow> Inl e
      | Some (Inr (name, value)) \<Rightarrow>
          (let lg = (if name \<in> fst ` set (snd st)
                     then fst st @ [duplicate_warning name path] else fst st)
           in Inr (lg, AList.update name value (snd st))))"

fun parse_lines ::
  "string \<Rightarrow> string list \<Rightarrow> log_entry list \<times> meta \<Rightarrow> error + (log_entry list \<times> meta)" where
  "parse_lines path [] st = Inr st"
| "parse_lines path (line # rest) st =
     (case parse_line path line st of
        Inl e \<Rightarrow> Inl e
      | Inr st' \<Rightarrow> parse_lines path rest st')"

text \<open>\<^verbatim>\<open>_parse_metadata\<close> on the content of the file at \<open>path\<close>, starting from the log
  \<open>lg\<close>: the log afterwards and the dict, or the error raised.\<close>

definition parse_content ::
  "string \<Rightarrow> string \<Rightarrow> log_entry list \<Rightarrow> error + (log_entry list \<times> meta)" where
  "parse_content path content lg = parse_lines path (file_lines content) (lg, [])"

section \<open>The file system\<close>

text \<open>
  The calls of \<^verbatim>\<open>os\<close>, \<^verbatim>\<open>os.path\<close> and \<^verbatim>\<open>open\<close> that the source makes, on a tree
  of directories and regular files. A path is resolved from the root of the tree along
  its non-empty components; the empty path names nothing.
\<close>

datatype node = File string | Dir "(string \<times> node) list"

text \<open>\<^verbatim>\<open>os.path.join(a, *p)\<close> of \<^verbatim>\<open>posixpath\<close>: a component that starts with a slash
  replaces what came before it; a separator is added unless the path so far is empty
  or ends with one.\<close>

definition join_step :: "string \<Rightarrow> string \<Rightarrow> string" where
  "join_step path b =
     (if startswith b ''/'' then b
      else if path = [] \<or> last path = CHR ''/'' then path @ b
      else path @ ''/'' @ b)"

definition os_path_join :: "string \<Rightarrow> string list \<Rightarrow> string" where
  "os_path_join a p = foldl join_step a p"

fun split_slash :: "string \<Rightarrow> string \<Rightarrow> string list" where
  "split_slash cur [] = (if cur = [] then [] else [cur])"
| "split_slash cur (c # cs) =
     (if c = CHR ''/''
      then (if cur = [] then split_slash [] cs else cur # split_slash [] cs)
      else split_slash (cur @ [c]) cs)"

definition components :: "string \<Rightarrow> string list" where
  "components p = split_slash [] p"

fun lookup :: "node \<Rightarrow> string list \<Rightarrow> error + node" where
  "lookup n [] = Inr n"
| "lookup (File content) (c # cs) = Inl NotADirectoryError"
| "lookup (Dir es) (c # cs) =
     (case map_of es c of
        None \<Rightarrow> Inl FileNotFoundError
      | Some m \<Rightarrow> lookup m cs)"

definition resolve :: "node \<Rightarrow> string \<Rightarrow> error + node" where
  "resolve root p = (if p = [] then Inl FileNotFoundError else lookup root (components p))"

definition os_path_exists :: "node \<Rightarrow> string \<Rightarrow> bool" where
  "os_path_exists root p = (case resolve root p of Inl e \<Rightarrow> False | Inr n \<Rightarrow> True)"

definition os_path_isdir :: "node \<Rightarrow> string \<Rightarrow> bool" where
  "os_path_isdir root p =
     (case resolve root p of Inl e \<Rightarrow> False | Inr (File content) \<Rightarrow> False | Inr (Dir es) \<Rightarrow> True)"

definition os_listdir :: "node \<Rightarrow> string \<Rightarrow> error + string list" where
  "os_listdir root p =
     (case resolve root p of
        Inl e \<Rightarrow> Inl e
      | Inr (File content) \<Rightarrow> Inl NotADirectoryError
      | Inr (Dir es) \<Rightarrow> Inr (map fst es))"

text \<open>\<^verbatim>\<open>open(p)\<close> for reading: the bytes of the regular file at \<open>p\<close>.\<close>

definition open_read :: "node \<Rightarrow> string \<Rightarrow> error + string" where
  "open_read root p =
     (case resolve root p of
        Inl e \<Rightarrow> Inl e
      | Inr (File content) \<Rightarrow> Inr content
      | Inr (Dir es) \<Rightarrow> Inl IsADirectoryError)"

text \<open>\<^verbatim>\<open>open(p, 'a')\<close>, writing \<open>text\<close> and closing: the text goes to the end of the
  file, which is created in an existing directory when it is not there.\<close>

fun append_at :: "node \<Rightarrow> string list \<Rightarrow> string \<Rightarrow> error + node" where
  "append_at (File content) [] text = Inr (File (content @ text))"
| "append_at (Dir es) [] text = Inl IsADirectoryError"
| "append_at (File content) (c # cs) text = Inl NotADirectoryError"
| "append_at (Dir es) (c # cs) text =
     (case map_of es c of
        None \<Rightarrow> (if cs = [] then Inr (Dir (es @ [(c, File text)])) else Inl FileNotFoundError)
      | Some m \<Rightarrow>
          (case append_at m cs text of
             Inl e \<Rightarrow> Inl e
           | Inr m' \<Rightarrow> Inr (Dir (AList.update c m' es))))"

definition open_append :: "node \<Rightarrow> string \<Rightarrow> string \<Rightarrow> error + node" where
  "open_append root p text =
     (if p = [] then Inl FileNotFoundError else append_at root (components p) text)"

text \<open>\<^verbatim>\<open>os.makedirs(p, exist_ok=True)\<close>: every directory along \<open>p\<close> is created unless
  it is there; a regular file on the way is an error.\<close>

fun makedirs_at :: "node \<Rightarrow> string list \<Rightarrow> error + node" where
  "makedirs_at (File content) [] = Inl FileExistsError"
| "makedirs_at (Dir es) [] = Inr (Dir es)"
| "makedirs_at (File content) (c # cs) = Inl NotADirectoryError"
| "makedirs_at (Dir es) (c # cs) =
     (case map_of es c of
        None \<Rightarrow>
          (case makedirs_at (Dir []) cs of
             Inl e \<Rightarrow> Inl e
           | Inr m' \<Rightarrow> Inr (Dir (es @ [(c, m')])))
      | Some m \<Rightarrow>
          (case makedirs_at m cs of
             Inl e \<Rightarrow> Inl e
           | Inr m' \<Rightarrow> Inr (Dir (AList.update c m' es))))"

definition os_makedirs :: "node \<Rightarrow> string \<Rightarrow> error + node" where
  "os_makedirs root p =
     (if p = [] then Inl FileNotFoundError else makedirs_at root (components p))"

section \<open>The state of a run\<close>

text \<open>The file system, what has been written to \<^verbatim>\<open>sys.stdout\<close>, and the records of
  \<^verbatim>\<open>ctx.log\<close>.\<close>

record state =
  fs :: node
  sys_stdout :: string
  logs :: "log_entry list"

text \<open>A job handle: \<open>outfile\<close> is \<open>None\<close> when the handle has no such attribute
  (\<^verbatim>\<open>hasattr(job, 'outfile')\<close>).\<close>

record job =
  outfile :: "string option"
  teeout :: bool
  stdout :: string

text \<open>\<^verbatim>\<open>ctx.timestamp\<close>, a \<^verbatim>\<open>datetime\<close>.\<close>

record datetime =
  year :: nat
  month :: nat
  day :: nat
  hour :: nat
  minute :: nat
  second :: nat

text \<open>What a \<^verbatim>\<open>BenchmarkRunner\<close> reads of its context, target and instance:
  \<^verbatim>\<open>ctx.paths.pool_results\<close>, \<^verbatim>\<open>ctx.paths.runlog\<close>, \<^verbatim>\<open>ctx.timestamp\<close>,
  \<^verbatim>\<open>target.name\<close> and \<^verbatim>\<open>instance.name\<close>.\<close>

record runner =
  pool_results :: string
  runlog :: string
  timestamp :: datetime
  target_name :: string
  instance_name :: string

section \<open>BenchmarkRunner\<close>






text \<open>
  \<^verbatim>\<open>with open(p, 'a') as outfile: with redirect_stdout(outfile): ...\<close> around a call that
  prints \<open>printed\<close> or raises: the file is opened (and created) first.
\<close>

definition append_printed :: "node \<Rightarrow> string \<Rightarrow> error + string \<Rightarrow> error + node" where
  "append_printed root p printed =
     (case open_append root p [] of
        Inl e \<Rightarrow> Inl e
      | Inr root1 \<Rightarrow>
          (case printed of
             Inl e \<Rightarrow> Inl e
           | Inr text \<Rightarrow> open_append root1 p text))"

text \<open>
  \<^verbatim>\<open>BenchmarkRunner._print_footer\<close>. The target's \<^verbatim>\<open>report_result\<close> is not part of this
  module: \<open>report_result\<close> gives, for the output text it is passed, the text it prints
  or the error it raises.
\<close>

definition print_footer ::
  "(string \<Rightarrow> error + string) \<Rightarrow> runner \<Rightarrow> job \<Rightarrow> state \<Rightarrow> error + state" where
  "print_footer report_result r j s =
     (case outfile j of
        Some p \<Rightarrow>
          (let s1 = s\<lparr>logs := logs s @ [Debug (''appending metadata to '' @ p)]\<rparr> in
           case open_read (fs s1) p of
             Inl e \<Rightarrow> Inl e
           | Inr content \<Rightarrow>
               (case append_printed (fs s1) p (report_result (universal_newlines content)) of
                  Inl e \<Rightarrow> Inl e
                | Inr root' \<Rightarrow> Inr (s1\<lparr>fs := root'\<rparr>)))
      | None \<Rightarrow>
          if teeout j then
            (case report_result (stdout j) of
               Inl e \<Rightarrow> Inl e
             | Inr text \<Rightarrow> Inr (s\<lparr>sys_stdout := sys_stdout s @ text\<rparr>))
          else
            (case append_printed (fs s) (runlog r) (report_result (stdout j)) of
               Inl e \<Rightarrow> Inl e
             | Inr root' \<Rightarrow> Inr (s\<lparr>fs := root'\<rparr>)))"

text \<open>
  \<^verbatim>\<open>BenchmarkRunner.run\<close>. With a pool, the pool is handed \<open>callback\<close> and calls it on each
  job that completes; \<open>onsuccess\<close> is the caller's optional continuation, a state
  transformer that may raise. Without a pool, \<open>run_direct\<close> is what follows the job
  returned by \<^verbatim>\<open>util.run\<close>.
\<close>

definition callback ::
  "(string \<Rightarrow> error + string) \<Rightarrow> runner \<Rightarrow> (job \<Rightarrow> state \<Rightarrow> error + state) option \<Rightarrow>
   job \<Rightarrow> state \<Rightarrow> error + state" where
  "callback report_result r onsuccess j s =
     (case print_footer report_result r j s of
        Inl e \<Rightarrow> Inl e
      | Inr s1 \<Rightarrow>
          (case onsuccess of
             None \<Rightarrow> Inr s1
           | Some f \<Rightarrow> f j s1))"

definition run_direct ::
  "(string \<Rightarrow> error + string) \<Rightarrow> runner \<Rightarrow> job \<Rightarrow> state \<Rightarrow> error + state" where
  "run_direct report_result r j s = print_footer report_result r j s"

section \<open>BenchmarkReporter\<close>

text \<open>\<^verbatim>\<open>BenchmarkReporter._parse_metadata\<close>: the file is read from the file system.\<close>

definition parse_metadata ::
  "node \<Rightarrow> string \<Rightarrow> log_entry list \<Rightarrow> error + (log_entry list \<times> meta)" where
  "parse_metadata root path lg =
     (case open_read root path of
        Inl e \<Rightarrow> Inl e
      | Inr content \<Rightarrow> parse_content path content lg)"

text \<open>
  \<^verbatim>\<open>BenchmarkReporter.parse_rundirs\<close>, first loop: the instance directories of the run
  directories.
\<close>

fun scan_subdirs :: "node \<Rightarrow> string \<Rightarrow> string list \<Rightarrow> string list \<Rightarrow> string list \<Rightarrow> string list" where
  "scan_subdirs root targetdir instance_names [] instance_dirs = instance_dirs"
| "scan_subdirs root targetdir instance_names (subdir # rest) instance_dirs =
     (let instancedir = os_path_join targetdir [subdir] in
      if os_path_isdir root instancedir then
        if instance_names = [] \<or> subdir \<in> set instance_names
        then scan_subdirs root targetdir instance_names rest (instance_dirs @ [instancedir])
        else scan_subdirs root targetdir instance_names rest instance_dirs
      else scan_subdirs root targetdir instance_names rest instance_dirs)"

definition no_results_warning :: "string \<Rightarrow> string \<Rightarrow> log_entry" where
  "no_results_warning rundir tname =
     Warning (''rundir '' @ rundir @ '' contains no results for target '' @ tname)"

fun scan_rundirs ::
  "node \<Rightarrow> string \<Rightarrow> string list \<Rightarrow> string list \<Rightarrow> log_entry list \<times> string list \<Rightarrow>
   error + (log_entry list \<times> string list)" where
  "scan_rundirs root tname instance_names [] st = Inr st"
| "scan_rundirs root tname instance_names (rundir # rest) st =
     (let targetdir = os_path_join rundir [tname] in
      if os_path_exists root targetdir then
        (case os_listdir root targetdir of
           Inl e \<Rightarrow> Inl e
         | Inr subdirs \<Rightarrow>
             scan_rundirs root tname instance_names rest
               (fst st, scan_subdirs root targetdir instance_names subdirs (snd st)))
      else
        scan_rundirs root tname instance_names rest
          (fst st @ [no_results_warning rundir tname], snd st))"

text \<open>
  Second loop: every entry of every instance directory is printed and parsed.
  \<^verbatim>\<open>pprint\<close> is a library function; \<open>pformat\<close> stands for the text it gives a dict.
\<close>

fun scan_files ::
  "(meta \<Rightarrow> string) \<Rightarrow> node \<Rightarrow> string \<Rightarrow> string list \<Rightarrow> log_entry list \<times> string \<Rightarrow>
   error + (log_entry list \<times> string)" where
  "scan_files pformat root idir [] st = Inr st"
| "scan_files pformat root idir (filename # rest) st =
     (let path = os_path_join idir [filename];
          out1 = snd st @ print_text [''file:'', path]
      in case parse_metadata root path (fst st) of
           Inl e \<Rightarrow> Inl e
         | Inr (lg, m) \<Rightarrow> scan_files pformat root idir rest (lg, out1 @ pformat m @ [LF]))"

fun scan_instance_dirs ::
  "(meta \<Rightarrow> string) \<Rightarrow> node \<Rightarrow> string list \<Rightarrow> log_entry list \<times> string \<Rightarrow>
   error + (log_entry list \<times> string)" where
  "scan_instance_dirs pformat root [] st = Inr st"
| "scan_instance_dirs pformat root (idir # rest) st =
     (case os_listdir root idir of
        Inl e \<Rightarrow> Inl e
      | Inr filenames \<Rightarrow>
          (case scan_files pformat root idir filenames st of
             Inl e \<Rightarrow> Inl e
           | Inr st' \<Rightarrow> scan_instance_dirs pformat root rest st'))"

definition parse_rundirs ::
  "(meta \<Rightarrow> string) \<Rightarrow> string \<Rightarrow> string list \<Rightarrow> string list \<Rightarrow> state \<Rightarrow> error + state" where
  "parse_rundirs pformat tname instance_names rundirs s =
     (case scan_rundirs (fs s) tname instance_names rundirs (logs s, []) of
        Inl e \<Rightarrow> Inl e
      | Inr (lg, instance_dirs) \<Rightarrow>
          (case scan_instance_dirs pformat (fs s) instance_dirs (lg, sys_stdout s) of
             Inl e \<Rightarrow> Inl e
           | Inr (lg', out) \<Rightarrow> Inr (s\<lparr>logs := lg', sys_stdout := out\<rparr>)))"

text \<open>
  The three renderers, each as the text it prints or the error it raises, and
  \<^verbatim>\<open>getattr(self, name)\<close> for the names that start with \<^verbatim>\<open>report_\<close>: no other
  attribute of the class or of its instances has such a name.
\<close>

definition report_brief :: "error + string" where
  "report_brief = Inr []"

definition report_full :: "error + string" where
  "report_full = Inl NotImplementedError"

definition report_csv :: "error + string" where
  "report_csv = Inl NotImplementedError"

definition getattr_report :: "string \<Rightarrow> (error + string) option" where
  "getattr_report name =
     (if name = ''report_brief'' then Some report_brief
      else if name = ''report_full'' then Some report_full
      else if name = ''report_csv'' then Some report_csv
      else None)"

definition unknown_mode :: "string \<Rightarrow> error" where
  "unknown_mode mode = FatalError (''unknown reporting mode '' @ [DQ] @ mode @ [DQ])"

text \<open>
  \<^verbatim>\<open>BenchmarkReporter.report\<close>: \<open>sink\<close> is what \<^verbatim>\<open>self.outfile\<close> holds; standard output
  is redirected to it during the call. The result is the sink and the state.
\<close>

definition reporter_report :: "string \<Rightarrow> string \<times> state \<Rightarrow> error + (string \<times> state)" where
  "reporter_report mode st =
     (case getattr_report (''report_'' @ mode) of
        None \<Rightarrow> Inl (unknown_mode mode)
      | Some render \<Rightarrow>
          (case render of
             Inl e \<Rightarrow> (if e = AttributeError then Inl (unknown_mode mode) else Inl e)
           | Inr text \<Rightarrow> Inr (fst st @ text, snd st)))"

section \<open>Functions used to state the claims\<close>

text \<open>
  What one run directory is to contribute to the instance directories: nothing when its
  target directory cannot be listed, else the paths of the immediate subdirectories of
  the target directory whose name passes the instance filter, in listing order.
\<close>

definition kept_instance_dirs :: "node \<Rightarrow> string \<Rightarrow> string list \<Rightarrow> string \<Rightarrow> string list" where
  "kept_instance_dirs root tname instance_names rundir =
     (let targetdir = os_path_join rundir [tname] in
      case os_listdir root targetdir of
        Inl e \<Rightarrow> []
      | Inr subdirs \<Rightarrow>
          map (\<lambda>subdir. os_path_join targetdir [subdir])
            (filter (\<lambda>subdir. os_path_isdir root (os_path_join targetdir [subdir]) \<and>
                               (instance_names = [] \<or> subdir \<in> set instance_names))
               subdirs))"

text \<open>A tree for the example of the claim: the run directory \<^verbatim>\<open>r\<close> has the instances
  \<^verbatim>\<open>x\<close>, \<^verbatim>\<open>y\<close>, \<^verbatim>\<open>z\<close> of the target \<^verbatim>\<open>foo\<close>; the run directory \<^verbatim>\<open>p\<close> has no \<^verbatim>\<open>foo\<close>.\<close>

definition fs_xyz :: node where
  "fs_xyz = Dir [(''r'', Dir [(''foo'', Dir [(''x'', Dir []), (''y'', Dir []), (''z'', Dir []),
                                             (''notes'', File ''n'')])]),
                 (''p'', Dir [(''bar'', Dir [])])]"



definition malformed :: "string \<Rightarrow> bool" where
  "malformed line0 = (split_line line0 = Some (Inl ValueError))"







text \<open>
  A small run for the examples: a runner, a target whose \<^verbatim>\<open>report_result\<close> calls \<open>report\<close>
  with one entry, the footer this prints, a state with one result file, and a caller's
  continuation that logs the content of the job's output file as it finds it.
\<close>

definition demo_runner :: runner where
  "demo_runner = \<lparr>pool_results = ''/res'', runlog = ''/res/run.log'',
     timestamp = \<lparr>year = 2020, month = 3, day = 7, hour = 12, minute = 5, second = 59\<rparr>,
     target_name = ''spec2006'', instance_name = ''clang-lto''\<rparr>"

definition demo_report_result :: "string \<Rightarrow> error + string" where
  "demo_report_result output = Inr (report ''spec2006'' ''clang-lto'' [(''status'', ''ok'')])"

definition demo_footer :: string where
  "demo_footer = ''[setup-report] begin'' @ [LF] @ ''[setup-report] target: spec2006'' @ [LF] @
     ''[setup-report] instance: clang-lto'' @ [LF] @ ''[setup-report] status: ok'' @ [LF] @
     ''[setup-report] end'' @ [LF]"

definition demo_state :: state where
  "demo_state = \<lparr>fs = Dir [(''res'', Dir [(''bench'', File ''raw output'')])],
     sys_stdout = ''shown'', logs = []\<rparr>"

definition demo_onsuccess :: "job \<Rightarrow> state \<Rightarrow> error + state" where
  "demo_onsuccess j s =
     (case outfile j of
        None \<Rightarrow> Inr s
      | Some p \<Rightarrow>
          (case open_read (fs s) p of
             Inl e \<Rightarrow> Inl e
           | Inr content \<Rightarrow> Inr (s\<lparr>logs := logs s @ [Debug content]\<rparr>)))"


text \<open>
  A results tree with one result file, written the way \<open>print_footer\<close> leaves it: the
  output of the command, then what \<open>report\<close> printed.
\<close>

definition fs_results :: node where
  "fs_results =
     Dir [(''res'', Dir [(''run'', Dir [(''spec2006'', Dir [(''clang-lto'',
       Dir [(''bench'', File (''raw output'' @ [LF] @
                              report ''spec2006'' ''clang-lto'' [(''status'', ''ok'')]))])])])])]"

text \<open>
  Result files as the second loop of \<^verbatim>\<open>parse_rundirs\<close> meets them: a readable file none of
  whose lines makes the unpacking fail, and a readable file none of whose lines starts
  with the prefix.
\<close>

definition well_formed_file :: "node \<Rightarrow> string \<Rightarrow> bool" where
  "well_formed_file root path =
     (case open_read root path of
        Inl e \<Rightarrow> False
      | Inr content \<Rightarrow> list_all (\<lambda>l. \<not> malformed l) (file_lines content))"

definition plain_file :: "node \<Rightarrow> string \<Rightarrow> bool" where
  "plain_file root path =
     (case open_read root path of
        Inl e \<Rightarrow> False
      | Inr content \<Rightarrow> list_all (\<lambda>l. split_line l = None) (file_lines content))"

section \<open>Evaluation and helper facts\<close>

lemmas codec_defs = parse_content_def report_def report_entries_def print_text_def prefix_def
  file_lines_def LF_def CR_def parse_line_def split_line_def rstrip_def isspace_def startswith_def split_1_def

lemmas fs_defs = resolve_def components_def open_read_def os_listdir_def os_path_exists_def
  os_path_isdir_def os_path_join_def join_step_def open_append_def os_makedirs_def

lemmas reporter_defs = reporter_report_def getattr_report_def report_brief_def report_full_def
  report_csv_def unknown_mode_def

subsection \<open>Scanning the run directories\<close>

lemma scan_subdirs_filter:
  "scan_subdirs root targetdir names subdirs acc =
     acc @ map (\<lambda>subdir. os_path_join targetdir [subdir])
            (filter (\<lambda>subdir. os_path_isdir root (os_path_join targetdir [subdir]) \<and>
                               (names = [] \<or> subdir \<in> set names)) subdirs)"
  by (induction subdirs arbitrary: acc) (simp_all add: Let_def)

lemma isdir_listdir:
  "os_path_isdir root p \<Longrightarrow> os_path_exists root p \<and> (\<exists>names. os_listdir root p = Inr names)"
  by (auto simp add: os_path_isdir_def os_path_exists_def os_listdir_def
      split: sum.splits node.splits)

lemma not_exists_listdir:
  "\<not> os_path_exists root p \<Longrightarrow> \<exists>e. os_listdir root p = Inl e"
  by (auto simp add: os_path_exists_def os_listdir_def split: sum.splits node.splits)

subsection \<open>The loop over the lines\<close>

lemma duplicate_warning_inj [simp]:
  "(duplicate_warning n path = duplicate_warning k path) = (n = k)"
  by (simp add: duplicate_warning_def)

lemma split_line_disj:
  "split_line l = None \<or> split_line l = Some (Inl ValueError) \<or>
   (\<exists>n v. split_line l = Some (Inr (n, v)))"
  by (auto simp add: split_line_def Let_def split: list.splits)

lemma split_line_cases [case_names none fail entry]:
  obtains "split_line l = None" | "split_line l = Some (Inl ValueError)"
  | n v where "split_line l = Some (Inr (n, v))"
  using split_line_disj [of l] by (elim disjE exE) simp_all

lemma parse_line_none:
  "split_line l = None \<Longrightarrow> parse_line path l st = Inr st"
  by (simp add: parse_line_def)


lemma parse_line_entry:
  "split_line l = Some (Inr (n, v)) \<Longrightarrow>
   parse_line path l (lg, m0) =
     Inr (if map_of m0 n = None then lg else lg @ [duplicate_warning n path],
          AList.update n v m0)"
proof (cases "map_of m0 n = None")
  case True
  assume "split_line l = Some (Inr (n, v))"
  moreover from True have "n \<notin> fst ` set m0" by (simp add: map_of_eq_None_iff)
  ultimately show ?thesis using True by (simp add: parse_line_def)
next
  case False
  assume "split_line l = Some (Inr (n, v))"
  moreover from False have "n \<in> fst ` set m0" by (simp add: map_of_eq_None_iff)
  ultimately show ?thesis using False by (simp add: parse_line_def)
qed

lemma parse_lines_succeeds:
  "list_all (\<lambda>l. \<not> malformed l) ls \<Longrightarrow> \<exists>lg' m. parse_lines path ls (lg, m0) = Inr (lg', m)"
proof (induction ls arbitrary: lg m0)
  case Nil
  then show ?case by simp
next
  case (Cons l ls)
  then have ok: "split_line l \<noteq> Some (Inl ValueError)" and rest: "list_all (\<lambda>l. \<not> malformed l) ls"
    by (simp_all add: malformed_def)
  show ?case
  proof (cases l rule: split_line_cases)
    case none
    then show ?thesis using Cons.IH [OF rest] by (simp add: parse_line_none)
  next
    case fail
    with ok show ?thesis by simp
  next
    case (entry n v)
    then show ?thesis using Cons.IH [OF rest] by (simp add: parse_line_entry)
  qed
qed



subsection \<open>Reading back the lines that were printed\<close>













subsection \<open>Appending to a file\<close>

lemma append_at_content:
  "append_at n ps tx = Inr n' \<Longrightarrow>
   lookup n' ps = Inr (File ((case lookup n ps of Inr (File c) \<Rightarrow> c | _ \<Rightarrow> []) @ tx))"
proof (induction n ps tx arbitrary: n' rule: append_at.induct)
  case (4 es c cs tx)
  show ?case
  proof (cases "map_of es c")
    case None
    with "4.prems" show ?thesis by (auto simp add: map_add_def split: if_splits)
  next
    case (Some m)
    with "4.prems" obtain m' where m': "append_at m cs tx = Inr m'"
      and n': "n' = Dir (AList.update c m' es)"
      by (auto split: sum.splits)
    from "4.IH" [OF Some m'] Some n' show ?thesis
      by (simp add: update_conv')
  qed
qed auto

lemma append_at_frame:
  "append_at n ps tx = Inr n' \<Longrightarrow> qs \<noteq> ps \<Longrightarrow>
   (lookup n' qs = Inr (File content)) = (lookup n qs = Inr (File content))"
proof (induction n ps tx arbitrary: n' qs rule: append_at.induct)
  case (1 c0 tx)
  then show ?case by (cases qs) auto
next
  case (4 es c cs tx)
  show ?case
  proof (cases qs)
    case Nil
    with "4.prems" show ?thesis by (auto split: option.splits sum.splits if_splits)
  next
    case (Cons d ds)
    show ?thesis
    proof (cases "map_of es c")
      case None
      with "4.prems" have n': "n' = Dir (es @ [(c, File tx)])" and cs: "cs = []"
        by (auto split: if_splits)
      show ?thesis
      proof (cases "d = c")
        case True
        with Cons cs "4.prems"(2) have "ds \<noteq> []" by simp
        then obtain x xs where "ds = x # xs" by (cases ds) auto
        with True Cons None n' show ?thesis by (simp add: map_add_def)
      next
        case False
        with Cons n' show ?thesis by (simp add: map_add_def split: option.splits)
      qed
    next
      case (Some m)
      with "4.prems" obtain m' where m': "append_at m cs tx = Inr m'"
        and n': "n' = Dir (AList.update c m' es)"
        by (auto split: sum.splits)
      show ?thesis
      proof (cases "d = c")
        case True
        with Cons "4.prems"(2) have "ds \<noteq> cs" by simp
        from "4.IH" [OF Some m' this] True Cons Some n' show ?thesis
          by (simp add: update_conv')
      next
        case False
        with Cons n' show ?thesis by (simp add: update_conv')
      qed
    qed
  qed
qed auto

lemma open_append_content:
  assumes "open_append root p text = Inr root'"
  shows "open_read root' p =
           Inr ((case open_read root p of Inr c \<Rightarrow> c | Inl e \<Rightarrow> []) @ text)"
proof -
  from assms have p: "p \<noteq> []" and ap: "append_at root (components p) text = Inr root'"
    by (auto simp add: open_append_def split: if_splits)
  from append_at_content [OF ap] p show ?thesis
    by (auto simp add: open_read_def resolve_def split: sum.splits node.splits)
qed

lemma open_append_frame:
  assumes "open_append root p text = Inr root'" and "components q \<noteq> components p"
  shows "(open_read root' q = Inr content) = (open_read root q = Inr content)"
proof -
  from assms have ap: "append_at root (components p) text = Inr root'"
    by (auto simp add: open_append_def split: if_splits)
  from append_at_frame [OF ap assms(2), of content] show ?thesis
    by (auto simp add: open_read_def resolve_def split: sum.splits node.splits)
qed

lemma append_printed_effect:
  assumes "append_printed root p printed = Inr root'"
  shows "\<exists>text. printed = Inr text
           \<and> open_read root' p = Inr ((case open_read root p of Inr c \<Rightarrow> c | Inl e \<Rightarrow> []) @ text)
           \<and> (\<forall>q content. components q \<noteq> components p \<longrightarrow>
                (open_read root' q = Inr content) = (open_read root q = Inr content))"
proof -
  from assms obtain root1 tx where o1: "open_append root p [] = Inr root1"
    and pr: "printed = Inr tx" and o2: "open_append root1 p tx = Inr root'"
    by (auto simp add: append_printed_def split: sum.splits)
  from open_append_content [OF o1]
  have c1: "open_read root1 p = Inr (case open_read root p of Inr c \<Rightarrow> c | Inl e \<Rightarrow> [])"
    by simp
  from open_append_content [OF o2] c1
  have "open_read root' p = Inr ((case open_read root p of Inr c \<Rightarrow> c | Inl e \<Rightarrow> []) @ tx)"
    by simp
  moreover have "\<forall>q content. components q \<noteq> components p \<longrightarrow>
                (open_read root' q = Inr content) = (open_read root q = Inr content)"
    using open_append_frame [OF o1] open_append_frame [OF o2] by simp
  ultimately show ?thesis using pr by blast
qed

subsection \<open>The run directory\<close>














subsection \<open>The loop over the files of an instance directory\<close>

text \<open>
  On files none of whose lines makes the unpacking fail the loop returns, and prints one
  \<^verbatim>\<open>file:\<close> line and one dict per file name; the dict of a file without prefixed lines is
  empty.
\<close>

lemma parse_lines_plain:
  "list_all (\<lambda>l. split_line l = None) ls \<Longrightarrow> parse_lines path ls st = Inr st"
  by (induction ls) (simp_all add: parse_line_none)

lemma parse_metadata_plain:
  "plain_file root path \<Longrightarrow> parse_metadata root path lg = Inr (lg, [])"
  by (auto simp add: plain_file_def parse_metadata_def parse_content_def parse_lines_plain
      split: sum.splits)

lemma parse_metadata_well_formed:
  "well_formed_file root path \<Longrightarrow> \<exists>lg' m. parse_metadata root path lg = Inr (lg', m)"
  using parse_lines_succeeds
  by (auto simp add: well_formed_file_def parse_metadata_def parse_content_def split: sum.splits)

lemma scan_files_well_formed:
  assumes "list_all (\<lambda>filename. well_formed_file root (os_path_join idir [filename])) filenames"
  shows "\<exists>lg' ms. length ms = length filenames
           \<and> scan_files pformat root idir filenames (lg, out) =
               Inr (lg', out @ concat (map (\<lambda>(filename, m).
                      print_text [''file:'', os_path_join idir [filename]] @ pformat m @ [LF])
                    (zip filenames ms)))
           \<and> (\<forall>i < length filenames.
                 plain_file root (os_path_join idir [filenames ! i]) \<longrightarrow> ms ! i = [])"
  using assms
proof (induction filenames arbitrary: lg out)
  case Nil
  then show ?case by simp
next
  case (Cons filename rest)
  let ?path = "os_path_join idir [filename]"
  from Cons.prems have wf: "well_formed_file root ?path"
    and rest: "list_all (\<lambda>filename. well_formed_file root (os_path_join idir [filename])) rest"
    by simp_all
  from parse_metadata_well_formed [OF wf] obtain lg1 m
    where pm: "parse_metadata root ?path lg = Inr (lg1, m)" by blast
  have m_plain: "plain_file root ?path \<Longrightarrow> m = []"
    using parse_metadata_plain [of root ?path lg] pm by simp
  from Cons.IH [OF rest, of lg1 "out @ print_text [''file:'', ?path] @ pformat m @ [LF]"]
  obtain lg' ms where len: "length ms = length rest"
    and run: "scan_files pformat root idir rest
                (lg1, out @ print_text [''file:'', ?path] @ pformat m @ [LF]) =
              Inr (lg', (out @ print_text [''file:'', ?path] @ pformat m @ [LF]) @
                   concat (map (\<lambda>(filename, m).
                      print_text [''file:'', os_path_join idir [filename]] @ pformat m @ [LF])
                    (zip rest ms)))"
    and plain: "\<forall>i < length rest. plain_file root (os_path_join idir [rest ! i]) \<longrightarrow> ms ! i = []"
    by auto
  have "length (m # ms) = length (filename # rest)" using len by simp
  moreover have "scan_files pformat root idir (filename # rest) (lg, out) =
      Inr (lg', out @ concat (map (\<lambda>(filename, m).
             print_text [''file:'', os_path_join idir [filename]] @ pformat m @ [LF])
           (zip (filename # rest) (m # ms))))"
    using pm run by (simp add: Let_def)
  moreover have "\<forall>i < length (filename # rest).
      plain_file root (os_path_join idir [(filename # rest) ! i]) \<longrightarrow> (m # ms) ! i = []"
    using plain m_plain by (auto simp add: nth_Cons split: nat.splits)
  ultimately show ?case by blast
qed

section \<open>The claims\<close>

text \<open>
  C2 (the code departs from it). The claim: decoding never fails, and the begin and end
  marker lines are ignored like any other line that is not of the form
  \<open>prefix key: value\<close>. On a result file that holds just what \<open>report\<close> writes for an
  empty record, \<open>parse_metadata\<close> raises \<^verbatim>\<open>ValueError\<close>: the begin line starts with the
  prefix, the rest \<^verbatim>\<open>begin\<close> has no \<^verbatim>\<open>': '\<close>, and the unpacking of the one-piece split
  fails.
\<close>

theorem parse_metadata_marker_line_raises:
  "parse_metadata (Dir [(''out'', File (report ''t'' ''i'' []))]) ''out'' [] = Inl ValueError"
  by (simp add: parse_metadata_def fs_defs codec_defs)

text \<open>
  C7. \<open>reporter_report\<close> raises the fatal error that names the mode exactly when the mode
  is none of \<^verbatim>\<open>brief\<close>, \<^verbatim>\<open>full\<close>, \<^verbatim>\<open>csv\<close>; the mode \<^verbatim>\<open>xyz\<close> gives the error with the
  message \<^verbatim>\<open>unknown reporting mode "xyz"\<close>; the mode \<^verbatim>\<open>brief\<close> succeeds; and whenever
  the call succeeds, the text the renderer printed is at the end of the sink and the
  rest of the state, standard output included, is as before.
\<close>

theorem report_mode_dispatch:
  "(reporter_report mode st = Inl (unknown_mode mode)) = (mode \<notin> {''brief'', ''full'', ''csv''})
   \<and> reporter_report ''xyz'' st = Inl (FatalError (''unknown reporting mode '' @ [DQ] @ ''xyz'' @ [DQ]))
   \<and> reporter_report ''brief'' st = Inr st
   \<and> (\<forall>sink s sink' s'. reporter_report mode (sink, s) = Inr (sink', s') \<longrightarrow>
        s' = s \<and> (\<exists>text. getattr_report (''report_'' @ mode) = Some (Inr text) \<and> sink' = sink @ text))"
  by (auto simp add: reporter_defs split: option.splits sum.splits if_splits)

theorem report_mode_dispatch_witness:
  "reporter_report ''brief'' (''earlier'', \<lparr>fs = Dir [], sys_stdout = ''shown'', logs = []\<rparr>)
     = Inr (''earlier'', \<lparr>fs = Dir [], sys_stdout = ''shown'', logs = []\<rparr>)
   \<and> getattr_report (''report_'' @ ''brief'') = Some (Inr [])"
  using report_mode_dispatch [of "''brief''" "(''earlier'', \<lparr>fs = Dir [], sys_stdout = ''shown'', logs = []\<rparr>)"]
  by (simp add: getattr_report_def report_brief_def)

text \<open>
  C10. \<^verbatim>\<open>report_full\<close> and \<^verbatim>\<open>report_csv\<close> are attributes of the reporter, so the modes
  \<^verbatim>\<open>full\<close> and \<^verbatim>\<open>csv\<close> are found; both raise \<^verbatim>\<open>NotImplementedError\<close>, which is not the
  unknown-mode error; and a call of \<open>reporter_report\<close> returns exactly for the mode
  \<^verbatim>\<open>brief\<close>.
\<close>

theorem report_full_csv_not_implemented:
  "getattr_report ''report_full'' = Some report_full
   \<and> getattr_report ''report_csv'' = Some report_csv
   \<and> reporter_report ''full'' st = Inl NotImplementedError
   \<and> reporter_report ''csv'' st = Inl NotImplementedError
   \<and> unknown_mode ''full'' \<noteq> NotImplementedError
   \<and> unknown_mode ''csv'' \<noteq> NotImplementedError
   \<and> ((\<exists>res. reporter_report mode st = Inr res) = (mode = ''brief''))"
  by (auto simp add: reporter_defs split: option.splits sum.splits if_splits)

text \<open>
  C6 (as amended). For run directories in each of which the entry named after the target
  is a directory whenever it exists, the first loop of \<^verbatim>\<open>parse_rundirs\<close> returns: one warning
  naming the run directory and the target for each run directory with no entry named
  after the target, and, for each run directory in turn, the immediate subdirectories of
  its target directory that pass the filter (the filter is empty or contains the name).
\<close>

theorem scan_rundirs_discover:
  assumes "\<forall>rundir \<in> set rundirs.
             os_path_exists root (os_path_join rundir [tname]) \<longrightarrow>
             os_path_isdir root (os_path_join rundir [tname])"
  shows "scan_rundirs root tname names rundirs (lg, dirs) =
           Inr (lg @ map (\<lambda>rundir. no_results_warning rundir tname)
                      (filter (\<lambda>rundir. \<not> os_path_exists root (os_path_join rundir [tname])) rundirs),
                dirs @ concat (map (kept_instance_dirs root tname names) rundirs))"
  using assms
proof (induction rundirs arbitrary: lg dirs)
  case Nil
  then show ?case by simp
next
  case (Cons rundir rest)
  let ?td = "os_path_join rundir [tname]"
  from Cons.prems have rest: "\<forall>rundir \<in> set rest.
      os_path_exists root (os_path_join rundir [tname]) \<longrightarrow>
      os_path_isdir root (os_path_join rundir [tname])"
    by simp
  show ?case
  proof (cases "os_path_exists root ?td")
    case True
    with Cons.prems have "os_path_isdir root ?td" by simp
    then obtain subdirs where ls: "os_listdir root ?td = Inr subdirs"
      using isdir_listdir by blast
    show ?thesis
      using True ls Cons.IH [OF rest]
      by (simp add: Let_def scan_subdirs_filter kept_instance_dirs_def)
  next
    case False
    then obtain e where ls: "os_listdir root ?td = Inl e"
      using not_exists_listdir by blast
    show ?thesis
      using False ls Cons.IH [OF rest]
      by (simp add: Let_def kept_instance_dirs_def)
  qed
qed

theorem scan_rundirs_discover_witness:
  "scan_rundirs fs_xyz ''foo'' [''y''] [''r'', ''p''] ([], []) =
     Inr ([no_results_warning ''p'' ''foo''], [''r/foo/y''])
   \<and> scan_rundirs fs_xyz ''foo'' [] [''r'', ''p''] ([], []) =
     Inr ([Warning ''rundir p contains no results for target foo''],
          [''r/foo/x'', ''r/foo/y'', ''r/foo/z''])"
  using scan_rundirs_discover [of "[''r'', ''p'']" fs_xyz "''foo''" "[''y'']" "[]" "[]"]
    scan_rundirs_discover [of "[''r'', ''p'']" fs_xyz "''foo''" "[]" "[]" "[]"]
  by (simp add: fs_xyz_def fs_defs kept_instance_dirs_def no_results_warning_def startswith_def)

text \<open>
  C6 as stated fails where the run directory holds a regular file named after the
  target: the run directory then has no subdirectory of that name, yet no warning is
  logged and listing the file raises \<^verbatim>\<open>NotADirectoryError\<close>.
\<close>

theorem scan_rundirs_target_file_counterexample:
  "\<not> os_path_isdir (Dir [(''r'', Dir [(''foo'', File [])])]) (os_path_join ''r'' [''foo''])
   \<and> scan_rundirs (Dir [(''r'', Dir [(''foo'', File [])])]) ''foo'' [] [''r''] ([], [])
       = Inl NotADirectoryError"
  by (simp add: fs_defs startswith_def)








text \<open>
  C9. The continuation \<open>callback\<close> that \<^verbatim>\<open>run\<close> hands to the pool: if the flush
  \<open>print_footer\<close> raises, the callback raises the same error whatever the caller's
  continuation is; if the flush returns the state \<open>s1\<close>, the callback is the caller's
  continuation applied to \<open>s1\<close> (or returns \<open>s1\<close> when there is none); and whenever the
  callback returns with a continuation \<open>f\<close>, then \<open>f\<close> was applied to the state the
  flush left, in which the job's output file, if it has one, ends with the text printed
  for it.
\<close>

theorem callback_flush_before_onsuccess:
  "(\<forall>e. print_footer report_result r j s = Inl e \<longrightarrow>
        callback report_result r onsuccess j s = Inl e)
   \<and> (\<forall>s1. print_footer report_result r j s = Inr s1 \<longrightarrow>
        callback report_result r None j s = Inr s1
        \<and> (\<forall>f. callback report_result r (Some f) j s = f j s1))
   \<and> (\<forall>f s2. callback report_result r (Some f) j s = Inr s2 \<longrightarrow>
        (\<exists>s1. print_footer report_result r j s = Inr s1 \<and> f j s1 = Inr s2
           \<and> (\<forall>p. outfile j = Some p \<longrightarrow>
                (\<exists>content printed. open_read (fs s) p = Inr content
                   \<and> report_result (universal_newlines content) = Inr printed
                   \<and> open_read (fs s1) p = Inr (content @ printed)))))"
proof (intro conjI allI impI)
  fix e assume "print_footer report_result r j s = Inl e"
  then show "callback report_result r onsuccess j s = Inl e"
    by (simp add: callback_def)
next
  fix s1 assume "print_footer report_result r j s = Inr s1"
  then show "callback report_result r None j s = Inr s1"
    by (simp add: callback_def)
next
  fix s1 f assume "print_footer report_result r j s = Inr s1"
  then show "callback report_result r (Some f) j s = f j s1"
    by (simp add: callback_def)
next
  fix f s2 assume run: "callback report_result r (Some f) j s = Inr s2"
  then obtain s1 where flush: "print_footer report_result r j s = Inr s1"
    and cont: "f j s1 = Inr s2"
    by (auto simp add: callback_def split: sum.splits)
  have "\<forall>p. outfile j = Some p \<longrightarrow>
          (\<exists>content printed. open_read (fs s) p = Inr content
             \<and> report_result (universal_newlines content) = Inr printed
             \<and> open_read (fs s1) p = Inr (content @ printed))"
  proof (intro allI impI)
    fix p assume p: "outfile j = Some p"
    with flush obtain content root' where rd: "open_read (fs s) p = Inr content"
      and ap: "append_printed (fs s) p (report_result (universal_newlines content)) = Inr root'"
      and s1: "fs s1 = root'"
      by (auto simp add: print_footer_def Let_def split: sum.splits)
    from append_printed_effect [OF ap] rd s1
    show "\<exists>content printed. open_read (fs s) p = Inr content
             \<and> report_result (universal_newlines content) = Inr printed
             \<and> open_read (fs s1) p = Inr (content @ printed)"
      by auto
  qed
  with flush cont
  show "\<exists>s1. print_footer report_result r j s = Inr s1 \<and> f j s1 = Inr s2
           \<and> (\<forall>p. outfile j = Some p \<longrightarrow>
                (\<exists>content printed. open_read (fs s) p = Inr content
                   \<and> report_result (universal_newlines content) = Inr printed
                   \<and> open_read (fs s1) p = Inr (content @ printed)))"
    by blast
qed

theorem callback_flush_before_onsuccess_witness:
  "callback demo_report_result demo_runner (Some demo_onsuccess)
       \<lparr>outfile = Some ''/res/bench'', teeout = False, stdout = []\<rparr> demo_state
     = Inr \<lparr>fs = Dir [(''res'', Dir [(''bench'', File (''raw output'' @ demo_footer))])],
            sys_stdout = ''shown'',
            logs = [Debug ''appending metadata to /res/bench'',
                    Debug (''raw output'' @ demo_footer)]\<rparr>"
  using callback_flush_before_onsuccess [of demo_report_result demo_runner
      "\<lparr>outfile = Some ''/res/bench'', teeout = False, stdout = []\<rparr>" demo_state
      "Some demo_onsuccess"]
  by (simp add: callback_def demo_onsuccess_def print_footer_def append_printed_def
      demo_report_result_def demo_runner_def
      demo_state_def demo_footer_def fs_defs report_def report_entries_def print_text_def
      prefix_def LF_def CR_def)



text \<open>
  C5 (the code departs from it). The claim: the second loop of \<^verbatim>\<open>parse_rundirs\<close> gives one
  entry per regular file and raises no error. On a results tree whose one result file
  holds the command's output followed by what \<open>report\<close> printed, \<open>parse_rundirs\<close> raises
  \<^verbatim>\<open>ValueError\<close>, at the begin line of the file.
\<close>

theorem parse_rundirs_written_file_raises:
  "parse_rundirs pformat ''spec2006'' [] [''/res/run'']
     \<lparr>fs = fs_results, sys_stdout = [], logs = []\<rparr> = Inl ValueError"
  by (simp add: parse_rundirs_def parse_metadata_def fs_results_def fs_defs codec_defs)

end
